theory Spec2Isabelle
  imports Main
begin

section \<open>Strings and POSIX paths as the script uses them\<close>

text \<open>
  The script \<^verbatim>\<open>i_script.py\<close> works on Python strings through \<^verbatim>\<open>str.endswith\<close>,
  \<^verbatim>\<open>str.replace\<close>, the \<^verbatim>\<open>in\<close> operator, and \<^verbatim>\<open>os.path\<close> (posixpath). Strings are
  \<^typ>\<open>string\<close>; the library functions are modelled after their CPython sources.
\<close>

definition sep :: char where
  "sep = CHR ''/''"

definition extsep :: char where
  "extsep = CHR ''.''"

text \<open>\<^verbatim>\<open>s.endswith(suf)\<close>.\<close>

definition endswith :: "string \<Rightarrow> string \<Rightarrow> bool" where
  "endswith s suf = (length suf \<le> length s \<and> drop (length s - length suf) s = suf)"

text \<open>\<^verbatim>\<open>s.startswith(pre)\<close>.\<close>

definition startswith :: "string \<Rightarrow> string \<Rightarrow> bool" where
  "startswith s pre = (take (length pre) s = pre)"

text \<open>\<^verbatim>\<open>f in s\<close> for two strings: \<open>f\<close> occurs in \<open>s\<close> as a contiguous substring.\<close>

fun str_contains :: "string \<Rightarrow> string \<Rightarrow> bool" where
  "str_contains [] f = (f = [])"
| "str_contains (c # cs) f = (startswith (c # cs) f \<or> str_contains cs f)"

text \<open>\<^verbatim>\<open>base.replace('_', '.')\<close>: every underscore becomes a dot.\<close>

definition replace_underscore :: "string \<Rightarrow> string" where
  "replace_underscore s = map (\<lambda>c. if c = CHR ''_'' then CHR ''.'' else c) s"

text \<open>\<^verbatim>\<open>s.rfind(c)\<close> for a single character: the last index of \<open>c\<close>, or \<open>-1\<close>.\<close>

definition rfind :: "string \<Rightarrow> char \<Rightarrow> int" where
  "rfind s c =
     (if c \<in> set s then int (length s) - 1 - int (length (takeWhile (\<lambda>x. x \<noteq> c) (rev s)))
      else - 1)"

text \<open>\<^verbatim>\<open>s.rstrip('/')\<close>.\<close>

definition rstrip_sep :: "string \<Rightarrow> string" where
  "rstrip_sep s = rev (dropWhile (\<lambda>c. c = sep) (rev s))"

text \<open>
  \<^verbatim>\<open>os.path.basename(p)\<close>: \<^verbatim>\<open>i = p.rfind('/') + 1; return p[i:]\<close>.
\<close>

definition os_path_basename :: "string \<Rightarrow> string" where
  "os_path_basename p = drop (nat (rfind p sep + 1)) p"

text \<open>
  \<^verbatim>\<open>os.path.dirname(p)\<close>: \<^verbatim>\<open>head = p[:i]\<close>, with trailing slashes stripped unless
  \<open>head\<close> consists of slashes only.
\<close>

definition os_path_dirname :: "string \<Rightarrow> string" where
  "os_path_dirname p =
     (let head = take (nat (rfind p sep + 1)) p
      in if head \<noteq> [] \<and> head \<noteq> replicate (length head) sep then rstrip_sep head else head)"

text \<open>
  \<^verbatim>\<open>os.path.join(a, b)\<close> with two arguments (posixpath): an absolute \<open>b\<close> replaces
  \<open>a\<close>; otherwise \<open>b\<close> is appended, after a slash unless \<open>a\<close> is empty or ends in one.
\<close>

definition os_path_join :: "string \<Rightarrow> string \<Rightarrow> string" where
  "os_path_join a b =
     (if startswith b [sep] then b
      else if a = [] \<or> endswith a [sep] then a @ b
      else a @ [sep] @ b)"

text \<open>
  \<^verbatim>\<open>os.path.splitext(p)\<close> (genericpath.\_splitext): the extension starts at the last
  dot, provided that dot comes after the last slash and some character other than a dot
  stands between the slash and it; leading dots of the basename are skipped, so
  \<^verbatim>\<open>splitext('.cshrc') == ('.cshrc', '')\<close>.
\<close>

definition os_path_splitext :: "string \<Rightarrow> string \<times> string" where
  "os_path_splitext p =
     (let sepIndex = rfind p sep;
          dotIndex = rfind p extsep
      in if dotIndex > sepIndex \<and>
            list_ex (\<lambda>c. c \<noteq> extsep)
              (take (nat (dotIndex - (sepIndex + 1))) (drop (nat (sepIndex + 1)) p))
         then (take (nat dotIndex) p, drop (nat dotIndex) p)
         else (p, []))"

section \<open>The directory tree that os.walk sees\<close>

text \<open>
  A directory as \<^verbatim>\<open>os.walk\<close> reads it: its subdirectories (name and content) and the
  names of its other entries, each in the order the directory listing returns them.
\<close>

datatype dirtree = DirTree (subdirs: "(string \<times> dirtree) list") (nondirs: "string list")

text \<open>
  \<^verbatim>\<open>os.walk(top)\<close>, top-down: yield \<^verbatim>\<open>(top, dirs, nondirs)\<close>, then walk each
  \<^verbatim>\<open>os.path.join(top, name)\<close> for \<open>name\<close> in \<open>dirs\<close>, in order.
\<close>

fun os_walk :: "string \<Rightarrow> dirtree \<Rightarrow> (string \<times> string list \<times> string list) list" where
  "os_walk topdir (DirTree ds fs) =
     (topdir, map fst ds, fs) # concat (map (\<lambda>x. os_walk (os_path_join topdir (fst x)) (snd x)) ds)"

text \<open>
  What the operating system guarantees of a directory: entry names are non-empty and
  contain no slash, and no name occurs twice in one directory.
\<close>

definition valid_name :: "string \<Rightarrow> bool" where
  "valid_name n = (n \<noteq> [] \<and> sep \<notin> set n)"

fun wf_tree :: "dirtree \<Rightarrow> bool" where
  "wf_tree (DirTree ds fs) =
     (distinct (map fst ds @ fs) \<and> list_all valid_name (map fst ds @ fs) \<and>
      list_all (\<lambda>x. wf_tree (snd x)) ds)"

section \<open>Grassify: the filter\<close>

text \<open>
  \<^verbatim>\<open>self.exclusion\<close> is the default list of five names, or whatever the caller passed:
  the command line passes a string. The test \<^verbatim>\<open>f in self.exclusion\<close> is list
  membership on a list and substring containment on a string.
\<close>

datatype exclusion = ExclList "string list" | ExclStr string

fun in_exclusion :: "string \<Rightarrow> exclusion \<Rightarrow> bool" where
  "in_exclusion f (ExclList xs) = (f \<in> set xs)"
| "in_exclusion f (ExclStr s) = str_contains s f"

text \<open>
  The inner loop of \<^verbatim>\<open>__filter\<close> (lines 228-234) over the names \<open>match\<close> of one walk
  record with directory \<open>d\<close>; \<open>files\<close> is the list being appended to.
\<close>

fun filter_names :: "exclusion \<Rightarrow> string \<Rightarrow> string \<Rightarrow> string list \<Rightarrow> string list \<Rightarrow> string list" where
  "filter_names excl ext d [] files = files"
| "filter_names excl ext d (f # match) files =
     (if in_exclusion f excl then filter_names excl ext d match files
      else if endswith f ext then filter_names excl ext d match (files @ [os_path_join d f])
      else filter_names excl ext d match files)"

text \<open>
  The outer loop (lines 220-234) over the walk records. \<open>pm f\<close> says whether
  \<^verbatim>\<open>pattern.match(f)\<close> returns a match object. A record with no file names is skipped;
  \<^verbatim>\<open>filter(...)\<close> never returns \<^verbatim>\<open>None\<close>, so the second \<^verbatim>\<open>continue\<close> is dead.
\<close>

fun filter_walk :: "(string \<Rightarrow> bool) \<Rightarrow> exclusion \<Rightarrow> string \<Rightarrow>
    (string \<times> string list \<times> string list) list \<Rightarrow> string list \<Rightarrow> string list" where
  "filter_walk pm excl ext [] files = files"
| "filter_walk pm excl ext (rec # recs) files =
     (if snd (snd rec) = [] then filter_walk pm excl ext recs files
      else let match = filter pm (snd (snd rec))
           in filter_walk pm excl ext recs (filter_names excl ext (fst rec) match files))"

section \<open>The world the script runs in\<close>

text \<open>
  The file system is a tree without symbolic or hard links. A node is found at its
  location, the list of names that lead to it from the root; the root, the empty list,
  is a directory.
\<close>

datatype node = File string | Dir

type_synonym location = "string list"

type_synonym filesystem = "location \<rightharpoonup> node"

definition is_dir :: "filesystem \<Rightarrow> location \<Rightarrow> bool" where
  "is_dir f q = (q = [] \<or> f q = Some Dir)"

text \<open>\<^verbatim>\<open>p.split('/')\<close>: the names of a path, empty ones included.\<close>

fun split_sep :: "string \<Rightarrow> string list" where
  "split_sep [] = [[]]"
| "split_sep (c # cs) =
     (if c = sep then [] # split_sep cs
      else (case split_sep cs of
              [] \<Rightarrow> [[c]]
            | x # xs \<Rightarrow> (c # x) # xs))"

text \<open>
  How the system follows the names of a path from the location \<open>cur\<close>: every step
  starts in a directory; an empty name and \<^verbatim>\<open>.\<close> stay there, \<^verbatim>\<open>..\<close> goes to the parent
  (the root is its own parent), and any other name goes to the entry of that name,
  whether or not something is stored there. The result is \<open>None\<close> when a step starts at
  something that is no directory.
\<close>

fun traverse :: "filesystem \<Rightarrow> location \<Rightarrow> string list \<Rightarrow> location option" where
  "traverse f cur [] = Some cur"
| "traverse f cur (c # cs) =
     (if \<not> is_dir f cur then None
      else traverse f
             (if c = [] \<or> c = ''.'' then cur
              else if c = ''..'' then butlast cur
              else cur @ [c]) cs)"

text \<open>
  The location a path string names for a process whose working directory is \<open>wd\<close>.
  The empty string names nothing.
\<close>

definition resolve :: "filesystem \<Rightarrow> location \<Rightarrow> string \<Rightarrow> location option" where
  "resolve f wd p =
     (if p = [] then None
      else traverse f (if hd p = sep then [] else wd) (split_sep p))"

text \<open>\<^verbatim>\<open>os.stat(p)\<close>, as far as the script looks at it: what is stored at the path.\<close>

definition os_stat :: "filesystem \<Rightarrow> location \<Rightarrow> string \<Rightarrow> node option" where
  "os_stat f wd p =
     (case resolve f wd p of
        None \<Rightarrow> None
      | Some q \<Rightarrow> if q = [] then Some Dir else f q)"

text \<open>\<^verbatim>\<open>os.path.exists(p)\<close> and \<^verbatim>\<open>os.path.isdir(p)\<close>.\<close>

definition os_path_exists :: "filesystem \<Rightarrow> location \<Rightarrow> string \<Rightarrow> bool" where
  "os_path_exists f wd p = (os_stat f wd p \<noteq> None)"

definition os_path_isdir :: "filesystem \<Rightarrow> location \<Rightarrow> string \<Rightarrow> bool" where
  "os_path_isdir f wd p = (os_stat f wd p = Some Dir)"

text \<open>
  What the script cannot compute from its arguments: the regular-expression engine
  (\<^verbatim>\<open>re.compile(p).match\<close> as a predicate, \<open>None\<close> when \<^verbatim>\<open>re.compile\<close> raises) and
  the directory listing below a path (\<open>None\<close> when the path cannot be listed, in which
  case \<^verbatim>\<open>os.walk\<close> yields nothing).
\<close>

record env =
  re_compile :: "string \<Rightarrow> (string \<Rightarrow> bool) option"
  listing :: "string \<Rightarrow> dirtree option"

text \<open>Output through \<^verbatim>\<open>grass.script\<close>: \<^verbatim>\<open>gs.debug(msg, level)\<close> and \<^verbatim>\<open>gs.message(msg)\<close>.\<close>

datatype gs_output = Debug string nat | Message string

text \<open>
  The state of a run: the file system, the working directory of the process (the script
  never changes it), and what has been written so far.
\<close>

record world =
  fs :: filesystem
  cwd :: location
  gs_out :: "gs_output list"
  stdout :: "string list"

text \<open>
  Everything that ends the run abnormally: \<^verbatim>\<open>gs.fatal(msg)\<close> (prints and exits with a
  non-zero status) and the Python exceptions the modelled calls can raise;
  \<open>FileExistsError\<close> is the OSError with \<^verbatim>\<open>errno.EEXIST\<close>, \<open>OSError\<close> any other.
\<close>

datatype error =
    Fatal string
  | AttributeError
  | KeyError
  | TypeError
  | ReError
  | OSError
  | FileExistsError
  | IOError
  | SameFileError

definition os_walk_env :: "env \<Rightarrow> string \<Rightarrow> (string \<times> string list \<times> string list) list" where
  "os_walk_env e p = (case listing e p of None \<Rightarrow> [] | Some t \<Rightarrow> os_walk p t)"

text \<open>
  \<^verbatim>\<open>os.mkdir(name)\<close>: trailing slashes do not count; the call fails with EEXIST when
  the path names something that exists (as a path that ends in \<^verbatim>\<open>.\<close> or \<^verbatim>\<open>..\<close> always
  does, once it can be followed), and with another error when it cannot be followed.
\<close>

definition strip_trailing_sep :: "string \<Rightarrow> string" where
  "strip_trailing_sep p = (if p \<noteq> [] \<and> rstrip_sep p = [] then [sep] else rstrip_sep p)"

definition os_mkdir :: "location \<Rightarrow> string \<Rightarrow> filesystem \<Rightarrow> (error + unit) \<times> filesystem" where
  "os_mkdir wd name f =
     (case resolve f wd (strip_trailing_sep name) of
        None \<Rightarrow> (Inl OSError, f)
      | Some q \<Rightarrow>
          if q = [] \<or> f q \<noteq> None then (Inl FileExistsError, f)
          else (Inr (), f(q \<mapsto> Dir)))"

text \<open>\<^verbatim>\<open>os.path.split(p)\<close>: the pair of \<^verbatim>\<open>dirname\<close> and \<^verbatim>\<open>basename\<close>.\<close>

definition os_path_split :: "string \<Rightarrow> string \<times> string" where
  "os_path_split p = (os_path_dirname p, os_path_basename p)"

text \<open>
  The first lines of \<^verbatim>\<open>os.makedirs\<close>:
  \<^verbatim>\<open>head, tail = path.split(name); if not tail: head, tail = path.split(head)\<close>.
\<close>

definition makedirs_split :: "string \<Rightarrow> string \<times> string" where
  "makedirs_split name =
     (let (head, tail) = os_path_split name
      in if tail = [] then os_path_split head else (head, tail))"

text \<open>
  \<^verbatim>\<open>os.makedirs(name)\<close>: when the head of the path does not exist it is made first,
  by the same function, and an EEXIST from there is passed over; a tail \<^verbatim>\<open>.\<close> then
  needs no directory of its own; at last \<^verbatim>\<open>os.mkdir(name)\<close>. What was created before
  an error stays.
\<close>

function os_makedirs :: "location \<Rightarrow> string \<Rightarrow> filesystem \<Rightarrow> (error + unit) \<times> filesystem" where
  "os_makedirs wd name f =
     (if fst (makedirs_split name) \<noteq> [] \<and> snd (makedirs_split name) \<noteq> [] \<and>
         \<not> os_path_exists f wd (fst (makedirs_split name))
      then (case os_makedirs wd (fst (makedirs_split name)) f of
              (Inl err, f1) \<Rightarrow>
                if err \<noteq> FileExistsError then (Inl err, f1)
                else if snd (makedirs_split name) = ''.'' then (Inr (), f1)
                else os_mkdir wd name f1
            | (Inr u, f1) \<Rightarrow>
                if snd (makedirs_split name) = ''.'' then (Inr (), f1)
                else os_mkdir wd name f1)
      else os_mkdir wd name f)"
  by pat_completeness auto

termination os_makedirs
proof (relation "measure (\<lambda>(wd, name, f). length name)", goal_cases)
  case 1
  show ?case by simp
next
  case (2 wd name f)
  have le: "length (rstrip_sep s) \<le> length s" for s
    by (simp add: rstrip_sep_def) (metis length_dropWhile_le length_rev)
  have dir: "length (os_path_dirname p) \<le> nat (rfind p sep + 1) \<and>
             length (os_path_dirname p) \<le> length p" for p
    using le[of "take (nat (rfind p sep + 1)) p"] by (simp add: os_path_dirname_def Let_def)
  have shorter: "length (fst (os_path_split p)) < length p" if "snd (os_path_split p) \<noteq> []" for p
    using dir[of p] that by (simp add: os_path_split_def os_path_basename_def)
  have "length (fst (makedirs_split name)) < length name"
    using 2 shorter[of name] shorter[of "os_path_dirname name"] dir[of name]
    by (auto simp: makedirs_split_def os_path_split_def Let_def split: if_splits)
  then show ?case by simp
qed

declare os_makedirs.simps [simp del]

text \<open>
  \<^verbatim>\<open>shutil.copy(src, dst)\<close>: a destination that is a directory stands for the file of
  the source's basename inside it; \<^verbatim>\<open>copyfile\<close> refuses to copy a file onto itself,
  opens the source for reading (it must be a regular file) and the destination for
  writing (its path must lead through directories to something that is no directory),
  and the destination then holds the source's bytes.
\<close>

definition shutil_copy :: "location \<Rightarrow> string \<Rightarrow> string \<Rightarrow> filesystem \<Rightarrow> error + filesystem" where
  "shutil_copy wd src dst f =
     (let dst = (if os_path_isdir f wd dst then os_path_join dst (os_path_basename src)
                 else dst)
      in if os_path_exists f wd src \<and> resolve f wd dst = resolve f wd src
         then Inl SameFileError
         else (case os_stat f wd src of
                 Some (File c) \<Rightarrow>
                   (case resolve f wd dst of
                      None \<Rightarrow> Inl IOError
                    | Some q \<Rightarrow> if is_dir f q then Inl IOError else Inr (f(q \<mapsto> File c)))
               | _ \<Rightarrow> Inl IOError))"

section \<open>Grassify\<close>

record Grassify =
  extension :: string
  candidates :: "string list"
  exclusion :: exclusion
  import_path :: string
  export_path :: "string option"
  files :: "string list"

text \<open>
  \<^verbatim>\<open>__filter(self, filter_p)\<close>: compile the pattern, walk \<^verbatim>\<open>self.import_path\<close>, and
  collect the paths the two loops keep.
\<close>

definition Grassify_filter ::
  "env \<Rightarrow> exclusion \<Rightarrow> string \<Rightarrow> string \<Rightarrow> string \<Rightarrow> error + string list" where
  "Grassify_filter e excl ext import filter_p =
     (case re_compile e filter_p of
        None \<Rightarrow> Inl ReError
      | Some pm \<Rightarrow> Inr (filter_walk pm excl ext (os_walk_env e import) []))"

text \<open>
  The loop of \<^verbatim>\<open>__init__\<close> (lines 162-166) over the candidates: \<open>found\<close> is
  \<^verbatim>\<open>self.export_path\<close>, \<open>None\<close> while the attribute has not been assigned.
\<close>

fun candidate_loop ::
  "filesystem \<Rightarrow> location \<Rightarrow> string list \<Rightarrow> string option \<Rightarrow> string option" where
  "candidate_loop f d [] found = found"
| "candidate_loop f d (item # rest) found =
     (let export_path = ''/usr/lib/'' @ item @ ''/scripts''
      in if os_path_exists f d export_path then candidate_loop f d rest (Some export_path)
         else candidate_loop f d rest found)"

text \<open>
  \<^verbatim>\<open>self.files is []\<close> (line 183) compares the identity of \<^verbatim>\<open>self.files\<close> with a list
  object built for the comparison, so it is false whatever \<^verbatim>\<open>self.files\<close> holds.
\<close>

definition is_new_empty_list :: "'a list \<Rightarrow> bool" where
  "is_new_empty_list xs = False"

definition default_exclusion :: "string list" where
  "default_exclusion =
     [''__init__.py'', ''__version__.py'', ''setup_grass.py'', ''gscpy.py'', ''setup.py'']"

definition no_files_message :: string where
  "no_files_message =
     ''No files detected. Note, that must be a point for * like: pattern = str.* ''"

text \<open>
  \<^verbatim>\<open>Grassify.__init__(input_dir, export_path, pattern, exclusion)\<close>. An argument that
  is \<^verbatim>\<open>None\<close> is \<open>None\<close>.
\<close>

definition Grassify_init ::
  "env \<Rightarrow> string \<Rightarrow> string option \<Rightarrow> string option \<Rightarrow> exclusion option \<Rightarrow> world
     \<Rightarrow> (error + Grassify) \<times> world" where
  "Grassify_init e input_dir export_path_arg pattern exclusion_arg w =
     (let ext = ''.py'';
          cands = [''grass70'', ''grass71'', ''grass72'', ''grass73'', ''grass74''];
          excl = (case exclusion_arg of None \<Rightarrow> ExclList default_exclusion | Some x \<Rightarrow> x)
      in if \<not> os_path_exists (fs w) (cwd w) input_dir
         then (Inl (Fatal (''Input directory <'' @ input_dir @ ''> not exists'')), w)
         else
           (case (case export_path_arg of
                    None \<Rightarrow> (Inr (candidate_loop (fs w) (cwd w) cands None), w)
                  | Some p \<Rightarrow>
                      if \<not> os_path_exists (fs w) (cwd w) p
                      then (case os_makedirs (cwd w) p (fs w) of
                              (Inl err, f') \<Rightarrow> (Inl err, w\<lparr>fs := f'\<rparr>)
                            | (Inr u, f') \<Rightarrow> (Inr (Some p), w\<lparr>fs := f'\<rparr>))
                      else (Inr (Some p), w)) of
              (Inl err, w1) \<Rightarrow> (Inl err, w1)
            | (Inr ep, w1) \<Rightarrow>
                (let filter_p = (case pattern of None \<Rightarrow> ''.*'' @ ext | Some p \<Rightarrow> p);
                     w2 = w1\<lparr>gs_out := gs_out w1 @ [Debug (''Filter: '' @ filter_p) 1]\<rparr>
                 in case Grassify_filter e excl ext input_dir filter_p of
                      Inl err \<Rightarrow> (Inl err, w2)
                    | Inr fl \<Rightarrow>
                        (let self = \<lparr>extension = ext, candidates = cands, exclusion = excl,
                                     import_path = input_dir, export_path = ep, files = fl\<rparr>
                         in if is_new_empty_list fl
                            then (Inr self, w2\<lparr>gs_out := gs_out w2 @ [Message no_files_message]\<rparr>)
                            else (Inr self, w2)))))"

text \<open>
  \<^verbatim>\<open>copy\<close>, lines 191-199 for one entry \<open>old_name\<close> of \<^verbatim>\<open>self.files\<close>: the path
  \<^verbatim>\<open>new_name\<close> the entry is copied to.
\<close>

definition new_name :: "string \<Rightarrow> string \<Rightarrow> string" where
  "new_name export old_name =
     (let filename = os_path_basename old_name;
          base = fst (os_path_splitext filename);
          base = replace_underscore base
      in os_path_join export base)"

text \<open>
  The loop of \<^verbatim>\<open>copy\<close> (lines 194-205). Reading \<^verbatim>\<open>self.export_path\<close> raises
  AttributeError when \<^verbatim>\<open>__init__\<close> never assigned it. An exception leaves the file
  system as the entries before it made it.
\<close>

fun copy_loop ::
  "location \<Rightarrow> string option \<Rightarrow> bool \<Rightarrow> string list \<Rightarrow> filesystem
     \<Rightarrow> (error + unit) \<times> filesystem" where
  "copy_loop d ep replace [] f = (Inr (), f)"
| "copy_loop d ep replace (old_name # rest) f =
     (case ep of
        None \<Rightarrow> (Inl AttributeError, f)
      | Some export \<Rightarrow>
          if \<not> os_path_exists f d (new_name export old_name) \<or> replace
          then (case shutil_copy d old_name (new_name export old_name) f of
                  Inl err \<Rightarrow> (Inl err, f)
                | Inr f' \<Rightarrow> copy_loop d ep replace rest f')
          else copy_loop d ep replace rest f)"

definition Grassify_copy :: "Grassify \<Rightarrow> bool \<Rightarrow> world \<Rightarrow> (error + int) \<times> world" where
  "Grassify_copy self replace w =
     (case copy_loop (cwd w) (export_path self) replace (files self) (fs w) of
        (Inl err, f') \<Rightarrow> (Inl err, w\<lparr>fs := f'\<rparr>)
      | (Inr u, f') \<Rightarrow> (Inr 0, w\<lparr>fs := f'\<rparr>))"

text \<open>\<^verbatim>\<open>print_products\<close>: one line per detected file on standard output.\<close>

definition print_products :: "Grassify \<Rightarrow> world \<Rightarrow> world" where
  "print_products self w =
     w\<lparr>stdout := stdout w @ map (\<lambda>f. ''Detected Files <'' @ f @ ''> '') (files self)\<rparr>"

section \<open>The command line\<close>

text \<open>
  \<^verbatim>\<open>change_dict_value(dictionary, old_value, new_value)\<close>: every value equal to
  \<open>old_value\<close> becomes \<open>new_value\<close>.
\<close>

definition change_dict_value :: "('k \<rightharpoonup> 'v) \<Rightarrow> 'v \<Rightarrow> 'v \<Rightarrow> ('k \<rightharpoonup> 'v)" where
  "change_dict_value dictionary old_value new_value =
     (\<lambda>key. case dictionary key of
               None \<Rightarrow> None
             | Some v \<Rightarrow> Some (if v = old_value then new_value else v))"

text \<open>An option value after parsing: a string, or \<^verbatim>\<open>None\<close>.\<close>

datatype pyval = PStr string | PNone

fun str_or_none :: "pyval \<Rightarrow> string option" where
  "str_or_none (PStr s) = Some s"
| "str_or_none PNone = None"

text \<open>
  \<^verbatim>\<open>main()\<close> on the global \<open>options\<close> and \<open>flags\<close>; the result is the exit status passed
  to \<^verbatim>\<open>sys.exit\<close>. A missing key raises KeyError, and \<^verbatim>\<open>os.path.exists(None)\<close>
  raises TypeError.
\<close>

definition main ::
  "env \<Rightarrow> (string \<rightharpoonup> pyval) \<Rightarrow> (string \<rightharpoonup> bool) \<Rightarrow> world \<Rightarrow> (error + int) \<times> world" where
  "main e options flags w =
     (case (options ''input_dir'', options ''export_path'', options ''pattern'',
            options ''exclusion'') of
        (Some i, Some x, Some p, Some c) \<Rightarrow>
          (case i of
             PNone \<Rightarrow> (Inl TypeError, w)
           | PStr input_dir \<Rightarrow>
               (case Grassify_init e input_dir (str_or_none x) (str_or_none p)
                       (map_option ExclStr (str_or_none c)) w of
                  (Inl err, w1) \<Rightarrow> (Inl err, w1)
                | (Inr grassify, w1) \<Rightarrow>
                    (case flags ''p'' of
                       None \<Rightarrow> (Inl KeyError, w1)
                     | Some True \<Rightarrow> (Inr 0, print_products grassify w1)
                     | Some False \<Rightarrow>
                         (case flags ''r'' of
                            None \<Rightarrow> (Inl KeyError, w1)
                          | Some r \<Rightarrow>
                              (case Grassify_copy grassify r w1 of
                                 (Inl err, w2) \<Rightarrow> (Inl err, w2)
                               | (Inr n, w2) \<Rightarrow> (Inr 0, w2))))))
      | _ \<Rightarrow> (Inl KeyError, w))"

text \<open>
  The script body (lines 276-280): empty option strings become \<^verbatim>\<open>None\<close>, then
  \<^verbatim>\<open>sys.exit(main())\<close>.
\<close>

definition script :: "env \<Rightarrow> (string \<rightharpoonup> string) \<Rightarrow> (string \<rightharpoonup> bool) \<Rightarrow> world
    \<Rightarrow> (error + int) \<times> world" where
  "script e raw_options flags w =
     main e (change_dict_value (map_option PStr \<circ> raw_options) (PStr []) PNone) flags w"

section \<open>A regular-expression engine for concrete runs\<close>

text \<open>
  The fragment of Python's regular expressions made of ordinary characters, \<^verbatim>\<open>.\<close> (any
  character but a newline) and a starred single character, matched at the start of the
  string as \<^verbatim>\<open>re.match\<close> does. The default pattern \<^verbatim>\<open>.*.py\<close> lies in it. Patterns
  outside the fragment are not covered: \<open>re_fragment\<close> is used to run the model on concrete
  inputs only, and the theorems hold for every engine.
\<close>

datatype re_atom = RAny | RChr char

fun atom_ok :: "re_atom \<Rightarrow> char \<Rightarrow> bool" where
  "atom_ok RAny c = (c \<noteq> CHR 0x0A)"
| "atom_ok (RChr a) c = (a = c)"

fun re_parse :: "string \<Rightarrow> (re_atom \<times> bool) list option" where
  "re_parse [] = Some []"
| "re_parse [c] =
     (if c \<in> set ''*+?[](){}|^$'' \<or> c = CHR 0x5C then None
      else Some [(if c = CHR ''.'' then RAny else RChr c, False)])"
| "re_parse (c # d # cs) =
     (if c \<in> set ''*+?[](){}|^$'' \<or> c = CHR 0x5C then None
      else if d = CHR ''*'' then
        map_option (\<lambda>ts. (if c = CHR ''.'' then RAny else RChr c, True) # ts) (re_parse cs)
      else
        map_option (\<lambda>ts. (if c = CHR ''.'' then RAny else RChr c, False) # ts) (re_parse (d # cs)))"

function re_run :: "(re_atom \<times> bool) list \<Rightarrow> string \<Rightarrow> bool" where
  "re_run [] s = True"
| "re_run ((a, False) # ts) [] = False"
| "re_run ((a, False) # ts) (c # cs) = (atom_ok a c \<and> re_run ts cs)"
| "re_run ((a, True) # ts) [] = re_run ts []"
| "re_run ((a, True) # ts) (c # cs) =
     ((atom_ok a c \<and> re_run ((a, True) # ts) cs) \<or> re_run ts (c # cs))"
  by pat_completeness auto
termination
  by (relation "measure (\<lambda>(ts, s). length ts + length s)") auto

definition re_fragment :: "string \<Rightarrow> (string \<Rightarrow> bool) option" where
  "re_fragment p = map_option re_run (re_parse p)"

section \<open>Notions used to state the properties\<close>

text \<open>
  A file name is selected when the pattern matches it, the exclusion test fails and it
  ends with the extension. The entries of a walk are its (directory, file name) pairs in
  walk order; \<open>entry_path\<close> is the path \<^verbatim>\<open>__filter\<close> builds for one.
\<close>

definition selected :: "(string \<Rightarrow> bool) \<Rightarrow> exclusion \<Rightarrow> string \<Rightarrow> string \<Rightarrow> bool" where
  "selected pm excl ext f = (pm f \<and> \<not> in_exclusion f excl \<and> endswith f ext)"

definition walk_entries :: "(string \<times> string list \<times> string list) list \<Rightarrow> (string \<times> string) list" where
  "walk_entries recs = concat (map (\<lambda>r. map (Pair (fst r)) (snd (snd r))) recs)"

definition entry_path :: "string \<times> string \<Rightarrow> string" where
  "entry_path x = os_path_join (fst x) (snd x)"




section \<open>A package directory to run the model on\<close>

definition example_tree :: dirtree where
  "example_tree =
     DirTree [(''i_import'', DirTree [] [''i_dr_import.py'', ''__init__.py'', ''notes.txt''])]
       [''i_script.py'', ''__init__.py'', ''setup.py'']"

text \<open>
  Further directories: an empty one, one whose two files get the same destination name,
  one that serves as its own destination, and one with names near \<^verbatim>\<open>__init__.py\<close>.
\<close>

definition example_env :: env where
  "example_env =
     \<lparr>re_compile = re_fragment,
      listing = map_of
        [(''/pkg'', example_tree),
         (''/empty'', DirTree [] []),
         (''/clash'', DirTree [] [''a_b.py'', ''a.b.py'']),
         (''/same'', DirTree [] [''a.py.py'', ''a.py'']),
         (''/initpkg'', DirTree [] [''init.py'', ''__init__.py'', ''_.py''])]\<rparr>"

text \<open>A directory that holds one file, named \<^verbatim>\<open>.py\<close>.\<close>

definition dotfile_env :: env where
  "dotfile_env = \<lparr>re_compile = re_fragment, listing = map_of [(''/dots'', DirTree [] [''.py''])]\<rparr>"

definition example_fs :: filesystem where
  "example_fs = map_of
     [([''home''], Dir),
      ([''pkg''], Dir),
      ([''pkg'', ''i_script.py''], File ''#!script''),
      ([''pkg'', ''__init__.py''], File []),
      ([''pkg'', ''setup.py''], File ''#!setup''),
      ([''pkg'', ''i_import''], Dir),
      ([''pkg'', ''i_import'', ''i_dr_import.py''], File ''#!import''),
      ([''pkg'', ''i_import'', ''__init__.py''], File []),
      ([''pkg'', ''i_import'', ''notes.txt''], File ''notes''),
      ([''empty''], Dir),
      ([''clash''], Dir),
      ([''clash'', ''a_b.py''], File ''one''),
      ([''clash'', ''a.b.py''], File ''two''),
      ([''same''], Dir),
      ([''same'', ''a.py.py''], File ''B''),
      ([''same'', ''a.py''], File ''A''),
      ([''initpkg''], Dir),
      ([''initpkg'', ''init.py''], File ''i''),
      ([''initpkg'', ''__init__.py''], File []),
      ([''initpkg'', ''_.py''], File ''u''),
      ([''out''], Dir),
      ([''out'', ''i.script''], File ''#!old''),
      ([''usr''], Dir),
      ([''usr'', ''lib''], Dir),
      ([''usr'', ''lib'', ''grass70''], Dir),
      ([''usr'', ''lib'', ''grass70'', ''scripts''], Dir),
      ([''usr'', ''lib'', ''grass72''], Dir),
      ([''usr'', ''lib'', ''grass72'', ''scripts''], Dir)]"

definition example_world :: world where
  "example_world = \<lparr>fs = example_fs, cwd = [''home''], gs_out = [], stdout = []\<rparr>"

text \<open>What \<^verbatim>\<open>__init__\<close> builds for \<^verbatim>\<open>/pkg\<close> with the export directory \<^verbatim>\<open>/out\<close>.\<close>

definition example_grassify :: Grassify where
  "example_grassify =
     \<lparr>extension = ''.py'',
      candidates = [''grass70'', ''grass71'', ''grass72'', ''grass73'', ''grass74''],
      exclusion = ExclList default_exclusion,
      import_path = ''/pkg'', export_path = Some ''/out'',
      files = [''/pkg/i_script.py'', ''/pkg/i_import/i_dr_import.py'']\<rparr>"

text \<open>The same files on a machine with no GRASS installation under \<^verbatim>\<open>/usr/lib\<close>.\<close>

definition no_grass_fs :: filesystem where
  "no_grass_fs = map_of
     [([''home''], Dir),
      ([''pkg''], Dir),
      ([''pkg'', ''i_script.py''], File ''#!script''),
      ([''pkg'', ''__init__.py''], File []),
      ([''pkg'', ''setup.py''], File ''#!setup''),
      ([''pkg'', ''i_import''], Dir),
      ([''pkg'', ''i_import'', ''i_dr_import.py''], File ''#!import''),
      ([''pkg'', ''i_import'', ''__init__.py''], File []),
      ([''pkg'', ''i_import'', ''notes.txt''], File ''notes''),
      ([''empty''], Dir),
      ([''usr''], Dir),
      ([''usr'', ''lib''], Dir)]"

definition no_grass_world :: world where
  "no_grass_world = \<lparr>fs = no_grass_fs, cwd = [''home''], gs_out = [], stdout = []\<rparr>"

section \<open>Paths\<close>

lemma rfind_absent: "c \<notin> set s \<Longrightarrow> rfind s c = - 1"
  by (simp add: rfind_def)

lemma rfind_last: "c \<notin> set t \<Longrightarrow> rfind (s @ c # t) c = int (length s)"
proof -
  assume a: "c \<notin> set t"
  have "takeWhile (\<lambda>x. x \<noteq> c) (rev t @ c # rev s) = rev t"
    using a by (subst takeWhile_append2) auto
  then show ?thesis by (simp add: rfind_def)
qed

lemma nat_int_Suc: "nat (int n + 1) = Suc n"
  by linarith

lemma basename_no_sep: "sep \<notin> set f \<Longrightarrow> os_path_basename f = f"
  by (simp add: os_path_basename_def rfind_absent)

lemma basename_append_sep: "sep \<notin> set f \<Longrightarrow> os_path_basename (d @ sep # f) = f"
  by (simp add: os_path_basename_def rfind_last nat_int_Suc)

lemma endswith_sep: "endswith a [sep] \<longleftrightarrow> (\<exists>b. a = b @ [sep])"
  by (cases a rule: rev_cases) (auto simp: endswith_def)

lemma startswith_sep: "startswith b [sep] \<longleftrightarrow> (\<exists>t. b = sep # t)"
  by (cases b) (auto simp: startswith_def)

lemma join_valid:
  "sep \<notin> set f \<Longrightarrow>
   os_path_join d f = (if d = [] \<or> endswith d [sep] then d @ f else d @ sep # f)"
  by (auto simp: os_path_join_def startswith_sep)

lemma basename_join: "sep \<notin> set f \<Longrightarrow> os_path_basename (os_path_join d f) = f"
  by (auto simp: join_valid endswith_sep basename_no_sep basename_append_sep)

lemma splitext_py:
  assumes "sep \<notin> set stem"
  shows "os_path_splitext (stem @ ''.py'') =
           (if list_ex (\<lambda>c. c \<noteq> extsep) stem then (stem, ''.py'') else (stem @ ''.py'', []))"
proof -
  have s: "rfind (stem @ ''.py'') sep = - 1"
    using assms by (simp add: rfind_absent sep_def)
  have "rfind (stem @ CHR ''.'' # ''py'') CHR ''.'' = int (length stem)"
    by (rule rfind_last) simp
  then have d: "rfind (stem @ ''.py'') extsep = int (length stem)"
    by (simp add: extsep_def)
  show ?thesis
    unfolding os_path_splitext_def by (simp add: s d Let_def)
qed

section \<open>The filter\<close>

lemma filter_names_eq:
  "filter_names excl ext d names acc =
     acc @ map (os_path_join d) (filter (\<lambda>f. \<not> in_exclusion f excl \<and> endswith f ext) names)"
  by (induction names arbitrary: acc) auto

lemma filter_walk_eq:
  "filter_walk pm excl ext recs acc =
     acc @ map entry_path (filter (\<lambda>x. selected pm excl ext (snd x)) (walk_entries recs))"
proof (induction recs arbitrary: acc)
  case Nil
  show ?case by (simp add: walk_entries_def)
next
  case (Cons r recs)
  have step: "map entry_path (filter (\<lambda>x. selected pm excl ext (snd x)) (map (Pair (fst r)) (snd (snd r))))
      = map (os_path_join (fst r))
          (filter (\<lambda>f. \<not> in_exclusion f excl \<and> endswith f ext) (filter pm (snd (snd r))))"
    by (induction "snd (snd r)" arbitrary: r) 
       (auto simp: selected_def entry_path_def filter_map comp_def)
  show ?case
    using Cons.IH step
    by (auto simp: walk_entries_def filter_names_eq Let_def)
qed



lemma walk_entries_Cons:
  "walk_entries (r # recs) = map (Pair (fst r)) (snd (snd r)) @ walk_entries recs"
  by (simp add: walk_entries_def)

lemma walk_entries_append: "walk_entries (xs @ ys) = walk_entries xs @ walk_entries ys"
  by (simp add: walk_entries_def)

lemma walk_entries_concat: "walk_entries (concat xss) = concat (map walk_entries xss)"
  by (induction xss) (simp_all add: walk_entries_append, simp add: walk_entries_def)







lemma str_contains_infix: "str_contains (pre @ f @ post) f"
proof (induction pre)
  case Nil
  have "startswith (f @ post) f" by (simp add: startswith_def)
  then show ?case by (cases "f @ post") auto
next
  case (Cons a pre)
  then show ?case by simp
qed

lemma filter_result:
  assumes "re_compile e p = Some pm" and "listing e root = Some t"
  shows "Grassify_filter e excl ext root p =
           Inr (map entry_path
                  (filter (\<lambda>x. selected pm excl ext (snd x)) (walk_entries (os_walk root t))))"
  using assms by (simp add: Grassify_filter_def os_walk_env_def filter_walk_eq)

lemma walk_entry_valid:
  "wf_tree t \<Longrightarrow> x \<in> set (walk_entries (os_walk topdir t)) \<Longrightarrow> valid_name (snd x)"
proof (induction t arbitrary: topdir)
  case (DirTree ds fns)
  have names: "\<forall>f\<in>set fns. valid_name f" and sub: "\<forall>y\<in>set ds. wf_tree (snd y)"
    using DirTree.prems(1) by (auto simp: list_all_iff)
  from DirTree.prems(2) consider
      (here) "x \<in> Pair topdir ` set fns"
    | (below) y where "y \<in> set ds"
        "x \<in> set (walk_entries (os_walk (os_path_join topdir (fst y)) (snd y)))"
    by (auto simp: walk_entries_Cons walk_entries_concat)
  then show ?case
  proof cases
    case here
    then show ?thesis using names by auto
  next
    case below
    have "snd y \<in> Basic_BNFs.snds y" by (cases y) simp
    then show ?thesis using DirTree.IH[OF below(1)] sub below by blast
  qed
qed



section \<open>The destination name\<close>

text \<open>
  Claim C1, amended. For a discovered file whose name \<open>stem @ ''.py''\<close> has a character
  other than a dot before the extension, \<^verbatim>\<open>copy\<close> writes to the export directory under
  the stem with every underscore replaced by a dot. In particular \<^verbatim>\<open>i_dr_import.py\<close>
  yields \<^verbatim>\<open>i.dr.import\<close>.
\<close>

theorem copy_destination_name:
  assumes "sep \<notin> set stem" and "list_ex (\<lambda>c. c \<noteq> CHR ''.'') stem"
  shows "new_name export (os_path_join d (stem @ ''.py'')) =
           os_path_join export (replace_underscore stem) \<and>
         new_name export ''/pkg/i_import/i_dr_import.py'' = os_path_join export ''i.dr.import''"
proof -
  have v: "sep \<notin> set (stem @ ''.py'')"
    using assms(1) by (simp add: sep_def)
  have b: "os_path_basename (os_path_join d (stem @ ''.py'')) = stem @ ''.py''"
    using v by (rule basename_join)
  have general: "new_name export (os_path_join d (stem @ ''.py'')) =
           os_path_join export (replace_underscore stem)"
    unfolding new_name_def b using splitext_py[OF assms(1)] assms(2)
    by (simp add: Let_def extsep_def)
  have "os_path_basename ''/pkg/i_import/i_dr_import.py'' = ''i_dr_import.py''"
    by code_simp
  moreover have "os_path_splitext ''i_dr_import.py'' = (''i_dr_import'', ''.py'')"
    by code_simp
  moreover have "replace_underscore ''i_dr_import'' = ''i.dr.import''"
    by code_simp
  ultimately have example:
    "new_name export ''/pkg/i_import/i_dr_import.py'' = os_path_join export ''i.dr.import''"
    by (simp add: new_name_def)
  show ?thesis using general example by blast
qed

theorem copy_destination_name_witness:
  "sep \<notin> set ''g_c_mapset'' \<and> list_ex (\<lambda>c. c \<noteq> CHR ''.'') ''g_c_mapset'' \<and>
   new_name ''/usr/lib/grass74/scripts'' ''/pkg/g_db/g_c_mapset.py'' =
     ''/usr/lib/grass74/scripts/g.c.mapset''"
proof -
  have h: "sep \<notin> set ''g_c_mapset''" by (simp add: sep_def)
  have n: "list_ex (\<lambda>c. c \<noteq> CHR ''.'') ''g_c_mapset''" by simp
  have j: "os_path_join ''/pkg/g_db'' (''g_c_mapset'' @ ''.py'') = ''/pkg/g_db/g_c_mapset.py''"
    by code_simp
  have r: "os_path_join ''/usr/lib/grass74/scripts'' (replace_underscore ''g_c_mapset'') =
      ''/usr/lib/grass74/scripts/g.c.mapset''"
    by code_simp
  from copy_destination_name [OF h n, of "''/usr/lib/grass74/scripts''" "''/pkg/g_db''"]
  show ?thesis using h n unfolding j r by blast
qed

text \<open>
  The claim as it stands fails on a file named \<^verbatim>\<open>.py\<close>: the default pattern, the
  extension test and the default exclusion list all let it through, and
  \<^verbatim>\<open>os.path.splitext\<close> finds no extension in a name that has only dots before
  \<^verbatim>\<open>py\<close>, so the destination name is \<^verbatim>\<open>.py\<close>, the extension still in place.
\<close>

theorem dot_py_keeps_its_extension:
  "Grassify_filter dotfile_env (ExclList default_exclusion) ''.py'' ''/dots'' ''.*.py'' =
     Inr [''/dots/.py''] \<and>
   os_path_basename ''/dots/.py'' = ''.py'' \<and>
   os_path_splitext ''.py'' = (''.py'', []) \<and>
   new_name ''/out'' ''/dots/.py'' = ''/out/.py''"
  by code_simp

section \<open>Construction\<close>

lemma init_result:
  "Grassify_init e input_dir ep pat xa w =
     (if \<not> os_path_exists (fs w) (cwd w) input_dir
      then (Inl (Fatal (''Input directory <'' @ input_dir @ ''> not exists'')), w)
      else case (case ep of
                    None \<Rightarrow> (Inr (candidate_loop (fs w) (cwd w) [''grass70'', ''grass71'', ''grass72'', ''grass73'', ''grass74''] None), w)
                  | Some p \<Rightarrow>
                      if \<not> os_path_exists (fs w) (cwd w) p
                      then (case os_makedirs (cwd w) p (fs w) of
                              (Inl err, f') \<Rightarrow> (Inl err, w\<lparr>fs := f'\<rparr>)
                            | (Inr u, f') \<Rightarrow> (Inr (Some p), w\<lparr>fs := f'\<rparr>))
                      else (Inr (Some p), w)) of
              (Inl err, w1) \<Rightarrow> (Inl err, w1)
            | (Inr x, w1) \<Rightarrow>
                (case Grassify_filter e (case xa of None \<Rightarrow> ExclList default_exclusion | Some x \<Rightarrow> x)
                        ''.py'' input_dir (case pat of None \<Rightarrow> ''.*.py'' | Some p \<Rightarrow> p) of
                   Inl err \<Rightarrow>
                     (Inl err, w1\<lparr>gs_out := gs_out w1 @
                        [Debug (''Filter: '' @ (case pat of None \<Rightarrow> ''.*.py'' | Some p \<Rightarrow> p)) 1]\<rparr>)
                 | Inr fl \<Rightarrow>
                     (Inr \<lparr>extension = ''.py'',
                           candidates = [''grass70'', ''grass71'', ''grass72'', ''grass73'', ''grass74''],
                           exclusion = (case xa of None \<Rightarrow> ExclList default_exclusion | Some x \<Rightarrow> x),
                           import_path = input_dir, export_path = x, files = fl\<rparr>,
                      w1\<lparr>gs_out := gs_out w1 @
                        [Debug (''Filter: '' @ (case pat of None \<Rightarrow> ''.*.py'' | Some p \<Rightarrow> p)) 1]\<rparr>)))"
  unfolding Grassify_init_def Let_def is_new_empty_list_def
  by (cases pat; simp split: sum.split prod.split)

lemma init_exclusion:
  assumes "Grassify_init e input_dir ep pat xa w = (Inr g, w')"
  shows "exclusion g = (case xa of None \<Rightarrow> ExclList default_exclusion | Some x \<Rightarrow> x) \<and>
   extension g = ''.py'' \<and> import_path g = input_dir \<and>
   Grassify_filter e (exclusion g) ''.py'' input_dir
     (case pat of None \<Rightarrow> ''.*.py'' | Some p \<Rightarrow> p) = Inr (files g)"
proof -
  obtain x w1 fl where
    "Grassify_filter e (case xa of None \<Rightarrow> ExclList default_exclusion | Some x \<Rightarrow> x)
        ''.py'' input_dir (case pat of None \<Rightarrow> ''.*.py'' | Some p \<Rightarrow> p) = Inr fl"
    "g = \<lparr>extension = ''.py'',
          candidates = [''grass70'', ''grass71'', ''grass72'', ''grass73'', ''grass74''],
          exclusion = (case xa of None \<Rightarrow> ExclList default_exclusion | Some x \<Rightarrow> x),
          import_path = input_dir, export_path = x, files = fl\<rparr>"
    using assms unfolding init_result
    by (auto split: if_splits sum.splits prod.splits)
  then show ?thesis by simp
qed

lemma filter_basenames:
  assumes "Grassify_filter e excl ext root p = Inr fl" and "listing e root = Some t"
    and "wf_tree t" and "q \<in> set fl"
  shows "\<not> in_exclusion (os_path_basename q) excl \<and> endswith (os_path_basename q) ext"
proof -
  obtain pm where pm: "re_compile e p = Some pm"
    using assms(1) by (auto simp: Grassify_filter_def split: option.splits)
  have "fl = map entry_path
          (filter (\<lambda>x. selected pm excl ext (snd x)) (walk_entries (os_walk root t)))"
    using filter_result[OF pm assms(2), of excl ext] assms(1) by simp
  then obtain x where x: "x \<in> set (walk_entries (os_walk root t))"
      "selected pm excl ext (snd x)" "q = entry_path x"
    using assms(4) by auto
  have "valid_name (snd x)" using assms(3) x(1) by (rule walk_entry_valid)
  then have "os_path_basename q = snd x"
    using x(3) by (simp add: entry_path_def basename_join valid_name_def)
  then show ?thesis using x(2) by (simp add: selected_def)
qed

text \<open>
  Claim C3. A file name that the exclusion test catches, be it one of the five default
  names of \<^verbatim>\<open>__init__\<close> or one the caller excluded, is the basename of no path in the
  list of detected files, whatever the pattern and the extension say.
\<close>

theorem excluded_names_never_listed:
  assumes "Grassify_init e input_dir ep pat xa w = (Inr g, w')"
    and "listing e input_dir = Some t" and "wf_tree t"
    and "in_exclusion f (exclusion g)"
  shows "exclusion g = (case xa of None \<Rightarrow> ExclList default_exclusion | Some x \<Rightarrow> x) \<and>
         f \<notin> os_path_basename ` set (files g)"
proof -
  note i = init_exclusion[OF assms(1)]
  have "os_path_basename q \<noteq> f" if "q \<in> set (files g)" for q
    using filter_basenames[OF _ assms(2,3) that] i assms(4) by auto
  then show ?thesis using i by auto
qed

lemma example_listing:
  "listing example_env ''/pkg'' = Some example_tree"
  "listing example_env ''/empty'' = Some (DirTree [] [])"
  "listing example_env ''/clash'' = Some (DirTree [] [''a_b.py'', ''a.b.py''])"
  "listing example_env ''/same'' = Some (DirTree [] [''a.py.py'', ''a.py''])"
  "listing example_env ''/initpkg'' = Some (DirTree [] [''init.py'', ''__init__.py'', ''_.py''])"
  by (simp_all add: example_env_def)

lemma example_wf: "wf_tree example_tree"
  by (simp add: example_tree_def valid_name_def sep_def)

lemma example_filter:
  "Grassify_filter example_env (ExclList default_exclusion) ''.py'' ''/pkg'' ''.*.py'' =
     Inr [''/pkg/i_script.py'', ''/pkg/i_import/i_dr_import.py'']"
  "Grassify_filter example_env (ExclList default_exclusion) ''.py'' ''/empty'' ''.*.py'' = Inr []"
  "Grassify_filter example_env (ExclList default_exclusion) ''.py'' ''/clash'' ''.*.py'' =
     Inr [''/clash/a_b.py'', ''/clash/a.b.py'']"
  "Grassify_filter example_env (ExclList default_exclusion) ''.py'' ''/same'' ''.*.py'' =
     Inr [''/same/a.py.py'', ''/same/a.py'']"
  "Grassify_filter example_env (ExclStr ''__init__.py'') ''.py'' ''/initpkg'' ''.*.py'' =
     Inr [''/initpkg/init.py'']"
  by code_simp+

lemma example_fs_dirs:
  "os_path_exists example_fs [''home''] ''/pkg''" "os_path_exists example_fs [''home''] ''/out''"
  "os_path_exists example_fs [''home''] ''/empty''" "os_path_exists example_fs [''home''] ''/clash''"
  "os_path_exists example_fs [''home''] ''/same''"
  by code_simp+

lemma example_init:
  "Grassify_init example_env ''/pkg'' (Some ''/out'') None None example_world =
     (Inr example_grassify, example_world\<lparr>gs_out := [Debug ''Filter: .*.py'' 1]\<rparr>)"
  unfolding init_result
  by (simp add: example_world_def example_fs_dirs example_filter example_grassify_def)

theorem excluded_names_never_listed_witness:
  "in_exclusion ''__init__.py'' (exclusion example_grassify) \<and>
   exclusion example_grassify = ExclList default_exclusion \<and>
   ''__init__.py'' \<notin> os_path_basename ` set (files example_grassify)"
proof -
  have x: "in_exclusion ''__init__.py'' (exclusion example_grassify)"
    by (simp add: example_grassify_def default_exclusion_def)
  from excluded_names_never_listed [OF example_init example_listing(1) example_wf x]
  show ?thesis using x by simp
qed

text \<open>
  Claim C10, amended. With a string as exclusion the test is substring containment:
  every file name that occurs in the string as a contiguous substring is excluded, also
  when it differs from the string. With \<^verbatim>\<open>__init__.py\<close> as exclusion the name
  \<^verbatim>\<open>_.py\<close> is excluded.
\<close>

theorem string_exclusion_is_substring_test:
  assumes "Grassify_filter e (ExclStr s) ext root p = Inr fl"
    and "listing e root = Some t" and "wf_tree t"
    and "s = pre @ f @ post"
  shows "in_exclusion f (ExclStr s) \<and> f \<notin> os_path_basename ` set fl"
proof -
  have x: "in_exclusion f (ExclStr s)"
    using assms(4) by (simp add: str_contains_infix)
  have "os_path_basename q \<noteq> f" if "q \<in> set fl" for q
    using filter_basenames[OF assms(1,2,3) that] x by auto
  then show ?thesis using x by auto
qed

theorem string_exclusion_is_substring_test_witness:
  "''__init__.py'' = ''__init_'' @ ''_.py'' @ [] \<and>
   ''_.py'' \<noteq> ''__init__.py'' \<and>
   in_exclusion ''_.py'' (ExclStr ''__init__.py'') \<and>
   ''_.py'' \<notin> os_path_basename ` set [''/initpkg/init.py'']"
proof -
  have w: "wf_tree (DirTree [] [''init.py'', ''__init__.py'', ''_.py''])"
    by (simp add: valid_name_def sep_def)
  have s: "''__init__.py'' = ''__init_'' @ ''_.py'' @ []" by simp
  from string_exclusion_is_substring_test [OF example_filter(5) example_listing(5) w s]
  show ?thesis by simp
qed

text \<open>
  The claim's own example fails: \<^verbatim>\<open>init.py\<close> is no contiguous substring of
  \<^verbatim>\<open>__init__.py\<close> (two underscores stand between \<^verbatim>\<open>init\<close> and \<^verbatim>\<open>.py\<close>), so the
  file is listed.
\<close>

theorem init_py_not_excluded_by_dunder_init:
  "\<not> in_exclusion ''init.py'' (ExclStr ''__init__.py'') \<and>
   Grassify_filter example_env (ExclStr ''__init__.py'') ''.py'' ''/initpkg'' ''.*.py'' =
     Inr [''/initpkg/init.py''] \<and>
   os_path_basename ''/initpkg/init.py'' = ''init.py''"
  by code_simp

end
